theory Spec2Isabelle
  imports Main
begin

section \<open>Values and documents\<close>

text \<open>
  The persisted settings file is a TOML document handled through tomlkit. A tomlkit
  container keeps a body: a list of pairs of an optional key and an item, where a
  comment is an item with no key. The model keeps exactly that shape. Floats and dates
  are left out; no function of \<^verbatim>\<open>config.py\<close> treats them differently from the
  other scalars. Parsing and printing are not modelled: the file on disk is the
  document itself.
\<close>

datatype item =
    TStr string
  | TInt int
  | TBool bool
  | TArray "item list"
  | TTable "(string option \<times> item) list"
  | TComment string

type_synonym body = "(string option \<times> item) list"

text \<open>A Python value that may be \<^verbatim>\<open>None\<close>.\<close>

type_synonym pyval = "item option"

datatype exn =
    KeyError
  | AssertionError
  | TypeError
  | AttributeError
  | FileExistsError
  | SystemExit
  | KeyboardInterrupt
  | FileNotFoundError
  | IsADirectoryError
  | OtherError string

text \<open>The keys of a container, in body order (\<^verbatim>\<open>d.keys()\<close>).\<close>

fun tk_keys :: "body \<Rightarrow> string list" where
  "tk_keys [] = []"
| "tk_keys ((None, v) # es) = tk_keys es"
| "tk_keys ((Some k, v) # es) = k # tk_keys es"

text \<open>Python truthiness (\<^verbatim>\<open>bool(v)\<close>) of an item read from a document.\<close>

fun truthy :: "item \<Rightarrow> bool" where
  "truthy (TStr s) = (s \<noteq> [])"
| "truthy (TInt i) = (i \<noteq> 0)"
| "truthy (TBool b) = b"
| "truthy (TArray xs) = (xs \<noteq> [])"
| "truthy (TTable b) = (tk_keys b \<noteq> [])"
| "truthy (TComment c) = True"

fun py_truthy :: "pyval \<Rightarrow> bool" where
  "py_truthy None = False"
| "py_truthy (Some v) = truthy v"

text \<open>\<^verbatim>\<open>d.get(key)\<close> on a container: the item stored under the key, or \<^verbatim>\<open>None\<close>.\<close>

fun tk_get :: "body \<Rightarrow> string \<Rightarrow> item option" where
  "tk_get [] k = None"
| "tk_get ((ko, v) # es) k = (if ko = Some k then Some v else tk_get es k)"

text \<open>
  \<^verbatim>\<open>d[key] = value\<close> on a container: an existing key keeps its place and gets the new
  value, a new key is appended.
\<close>

fun tk_replace :: "body \<Rightarrow> string \<Rightarrow> item \<Rightarrow> body" where
  "tk_replace [] k v = []"
| "tk_replace ((ko, x) # es) k v =
     (if ko = Some k then (ko, v) # es else (ko, x) # tk_replace es k v)"

definition tk_setitem :: "body \<Rightarrow> string \<Rightarrow> item \<Rightarrow> body" where
  "tk_setitem b k v = (if tk_get b k = None then b @ [(Some k, v)] else tk_replace b k v)"

text \<open>\<^verbatim>\<open>del d[key]\<close>: the entry of the key leaves the body, the others keep their order.\<close>

definition tk_delitem :: "body \<Rightarrow> string \<Rightarrow> body" where
  "tk_delitem b k = filter (\<lambda>e. fst e \<noteq> Some k) b"



section \<open>Config\<close>

record Config =
  prompt :: item
  env :: item

text \<open>
  \<^verbatim>\<open>self.env.get(key)\<close>: only a table has a \<^verbatim>\<open>get\<close>; on any other value read
  from the document the attribute lookup raises.
\<close>

fun env_get :: "item \<Rightarrow> string \<Rightarrow> exn + pyval" where
  "env_get (TTable b) k = Inr (tk_get b k)"
| "env_get v k = Inl AttributeError"

text \<open>
  \<^verbatim>\<open>return os.environ.get(key) or self.env.get(key) or default\<close>. The first argument
  is \<^verbatim>\<open>os.environ\<close>. Python's \<^verbatim>\<open>or\<close> returns its left operand when that is
  truthy and evaluates the right operand only otherwise.
\<close>

definition get_env ::
  "(string \<rightharpoonup> string) \<Rightarrow> Config \<Rightarrow> string \<Rightarrow> string option \<Rightarrow> exn + pyval" where
  "get_env environ self key dflt =
     (let a = map_option TStr (environ key) in
      if py_truthy a then Inr a
      else (case env_get (env self) key of
              Inl e \<Rightarrow> Inl e
            | Inr b \<Rightarrow> if py_truthy b then Inr b else Inr (map_option TStr dflt)))"

text \<open>
  \<^verbatim>\<open>if val := os.environ.get(key) or self.env.get(key): return val\<close>, and
  \<^verbatim>\<open>raise KeyError(...)\<close> otherwise.
\<close>

definition get_env_required ::
  "(string \<rightharpoonup> string) \<Rightarrow> Config \<Rightarrow> string \<Rightarrow> exn + item" where
  "get_env_required environ self key =
     (let a = map_option TStr (environ key) in
      case (if py_truthy a then Inr a else env_get (env self) key) of
        Inl e \<Rightarrow> Inl e
      | Inr None \<Rightarrow> Inl KeyError
      | Inr (Some v) \<Rightarrow> if truthy v then Inr v else Inl KeyError)"

text \<open>
  The precedence as the specification words it, by presence at each level: the process
  environment variable if set, otherwise the persisted value if present, otherwise the
  default, otherwise \<^verbatim>\<open>None\<close>.
\<close>

definition getEnv_spec ::
  "(string \<rightharpoonup> string) \<Rightarrow> body \<Rightarrow> string \<Rightarrow> string option \<Rightarrow> pyval" where
  "getEnv_spec environ persisted key dflt =
     (case environ key of
        Some s \<Rightarrow> Some (TStr s)
      | None \<Rightarrow> (case tk_get persisted key of
                   Some v \<Rightarrow> Some v
                 | None \<Rightarrow> map_option TStr dflt))"

text \<open>
  Required lookup as the specification words it: the value under the same precedence,
  the error exactly when the key is unset in both places.
\<close>

definition getEnvRequired_spec ::
  "(string \<rightharpoonup> string) \<Rightarrow> body \<Rightarrow> string \<Rightarrow> exn + item" where
  "getEnvRequired_spec environ persisted key =
     (case environ key of
        Some s \<Rightarrow> Inr (TStr s)
      | None \<Rightarrow> (case tk_get persisted key of
                   Some v \<Rightarrow> Inr v
                 | None \<Rightarrow> Inl KeyError))"

text \<open>A level holds a usable value when the key is there and its value is truthy.\<close>

definition live :: "(string \<rightharpoonup> string) \<Rightarrow> string \<Rightarrow> bool" where
  "live environ key = (case environ key of None \<Rightarrow> False | Some s \<Rightarrow> s \<noteq> [])"

definition stored :: "body \<Rightarrow> string \<Rightarrow> bool" where
  "stored b key = (case tk_get b key of None \<Rightarrow> False | Some v \<Rightarrow> truthy v)"

section \<open>Settings store\<close>

text \<open>
  The state the store works on: the settings file at \<^verbatim>\<open>config_path\<close> (absent, or
  the document it holds), the module's global \<^verbatim>\<open>_config\<close>, and what has been
  logged. Failures of the file system itself are not modelled.
\<close>

datatype log_event =
    CreatedConfigFile
  | UnknownKeys "string list"
  | NoCustomEndpoint string

record world =
  config_file :: "body option"
  cached :: "Config option"
  logged :: "log_event list"

definition ABOUT_ACTIVITYWATCH :: string where
  "ABOUT_ACTIVITYWATCH = ''ActivityWatch is a free and open-source automated time-tracker that helps you track how you spend your time on your devices.''"

definition ABOUT_GPTME :: string where
  "ABOUT_GPTME = ''gptme is a CLI to interact with large language models in a Chat-style interface, enabling the assistant to execute commands and code on the local machine, letting them assist in all kinds of development and terminal-based work.''"

text \<open>The document that \<^verbatim>\<open>tomlkit.dumps(default_config.dict())\<close> parses to.\<close>

definition default_config :: body where
  "default_config =
     [(Some ''prompt'', TTable
        [(Some ''about_user'', TStr ''I am a curious human programmer.''),
         (Some ''response_preference'', TStr ''Basic concepts don't need to be explained.''),
         (Some ''project'', TTable
            [(Some ''activitywatch'', TStr ABOUT_ACTIVITYWATCH),
             (Some ''gptme'', TStr ABOUT_GPTME)])]),
      (Some ''env'', TTable [])]"

text \<open>
  \<^verbatim>\<open>_load_config\<close> (an Isabelle name cannot start with an underscore): a missing
  file is created with the default document.
\<close>

definition load_config_raw :: "world \<Rightarrow> body \<times> world" where
  "load_config_raw w =
     (case config_file w of
        None \<Rightarrow> (default_config,
                 w\<lparr>config_file := Some default_config,
                   logged := logged w @ [CreatedConfigFile]\<rparr>)
      | Some doc \<Rightarrow> (doc, w))"

text \<open>
  \<^verbatim>\<open>load_config\<close>: both assertions, the two \<^verbatim>\<open>pop\<close>s, and the warning when keys
  are left over.
\<close>

definition load_config :: "world \<Rightarrow> (exn + Config) \<times> world" where
  "load_config w =
     (case load_config_raw w of (config, w1) \<Rightarrow>
        (case tk_get config ''prompt'' of
           None \<Rightarrow> (Inl AssertionError, w1)
         | Some p \<Rightarrow>
             (case tk_get config ''env'' of
                None \<Rightarrow> (Inl AssertionError, w1)
              | Some e \<Rightarrow>
                  (let rest = tk_delitem (tk_delitem config ''prompt'') ''env'' in
                   (Inr \<lparr>prompt = p, env = e\<rparr>,
                    if tk_keys rest \<noteq> []
                    then w1\<lparr>logged := logged w1 @ [UnknownKeys (tk_keys rest)]\<rparr>
                    else w1)))))"

definition get_config :: "world \<Rightarrow> (exn + Config) \<times> world" where
  "get_config w =
     (case cached w of
        Some c \<Rightarrow> (Inr c, w)
      | None \<Rightarrow>
          (case load_config w of
             (Inl e, w') \<Rightarrow> (Inl e, w')
           | (Inr c, w') \<Rightarrow> (Inr c, w'\<lparr>cached := Some c\<rparr>)))"

text \<open>
  The last statement of \<^verbatim>\<open>set_config_value\<close> and of \<^verbatim>\<open>comment_out\<close>:
  \<^verbatim>\<open>_config = load_config()\<close>. When \<^verbatim>\<open>load_config\<close> raises, the assignment does
  not happen.
\<close>

definition reload_config :: "world \<Rightarrow> (exn + unit) \<times> world" where
  "reload_config w =
     (case load_config w of
        (Inl e, w') \<Rightarrow> (Inl e, w')
      | (Inr c, w') \<Rightarrow> (Inr (), w'\<lparr>cached := Some c\<rparr>))"

text \<open>Python's \<^verbatim>\<open>s.split(c)\<close> for a one-character separator.\<close>

fun split_on :: "char \<Rightarrow> string \<Rightarrow> string list" where
  "split_on c [] = [[]]"
| "split_on c (x # xs) =
     (if x = c then [] # split_on c xs
      else (case split_on c xs of
              [] \<Rightarrow> [[x]]
            | w # ws \<Rightarrow> (x # w) # ws))"

text \<open>
  Both editing functions walk the key path with a variable \<^verbatim>\<open>d\<close> that starts at the
  document: \<^verbatim>\<open>for key in keypath[:-1]: d = d.get(key, {})\<close>. What \<^verbatim>\<open>d\<close> refers
  to decides whether a later write reaches the document, so the model keeps the
  reference: a table inside the document (by its key path), a fresh \<^verbatim>\<open>{}\<close> that the
  document does not contain, or a value that is not a mapping.
\<close>

datatype cursor = InDoc "string list" | Detached | NonTable

fun body_at :: "body \<Rightarrow> string list \<Rightarrow> body option" where
  "body_at b [] = Some b"
| "body_at b (k # ks) =
     (case tk_get b k of
        Some (TTable b') \<Rightarrow> body_at b' ks
      | _ \<Rightarrow> None)"

text \<open>The document after the table at a key path has been changed in place.\<close>

fun body_put :: "body \<Rightarrow> string list \<Rightarrow> body \<Rightarrow> body" where
  "body_put b [] new = new"
| "body_put b (k # ks) new =
     (case tk_get b k of
        Some (TTable b') \<Rightarrow> tk_replace b k (TTable (body_put b' ks new))
      | _ \<Rightarrow> b)"

text \<open>
  \<^verbatim>\<open>d.get(key, ...)\<close> through the reference: a fresh \<^verbatim>\<open>{}\<close> has no key, and a
  value that is not a mapping has no \<^verbatim>\<open>get\<close>.
\<close>

definition cursor_get :: "body \<Rightarrow> cursor \<Rightarrow> string \<Rightarrow> exn + pyval" where
  "cursor_get doc d key =
     (case d of
        InDoc p \<Rightarrow> (case body_at doc p of
                      Some b \<Rightarrow> Inr (tk_get b key)
                    | None \<Rightarrow> Inl AttributeError)
      | Detached \<Rightarrow> Inr None
      | NonTable \<Rightarrow> Inl AttributeError)"

text \<open>One turn of the loop, \<^verbatim>\<open>d = d.get(key, {})\<close>.\<close>

definition step :: "body \<Rightarrow> cursor \<Rightarrow> string \<Rightarrow> exn + cursor" where
  "step doc d key =
     (case cursor_get doc d key of
        Inl e \<Rightarrow> Inl e
      | Inr None \<Rightarrow> Inr Detached
      | Inr (Some (TTable b)) \<Rightarrow>
          (case d of InDoc p \<Rightarrow> Inr (InDoc (p @ [key])) | _ \<Rightarrow> Inr Detached)
      | Inr (Some v) \<Rightarrow> Inr NonTable)"

fun walk :: "body \<Rightarrow> cursor \<Rightarrow> string list \<Rightarrow> exn + cursor" where
  "walk doc d [] = Inr d"
| "walk doc d (key # keys) =
     (case step doc d key of
        Inl e \<Rightarrow> Inl e
      | Inr d' \<Rightarrow> walk doc d' keys)"

text \<open>
  \<^verbatim>\<open>d[key] = value\<close> through the reference, giving the document afterwards. A write
  to a fresh \<^verbatim>\<open>{}\<close> leaves the document as it was; a value that is not a mapping
  does not support item assignment.
\<close>

definition cursor_setitem :: "body \<Rightarrow> cursor \<Rightarrow> string \<Rightarrow> item \<Rightarrow> exn + body" where
  "cursor_setitem doc d key v =
     (case d of
        InDoc p \<Rightarrow> (case body_at doc p of
                      Some b \<Rightarrow> Inr (body_put doc p (tk_setitem b key v))
                    | None \<Rightarrow> Inl TypeError)
      | Detached \<Rightarrow> Inr doc
      | NonTable \<Rightarrow> Inl TypeError)"

definition set_config_value :: "string \<Rightarrow> string \<Rightarrow> world \<Rightarrow> (exn + unit) \<times> world" where
  "set_config_value key val w =
     (case load_config_raw w of (doc, w1) \<Rightarrow>
        (let keypath = split_on CHR ''.'' key in
         case walk doc (InDoc []) (butlast keypath) of
           Inl e \<Rightarrow> (Inl e, w1)
         | Inr d \<Rightarrow>
             (case cursor_setitem doc d (last keypath) (TStr val) of
                Inl e \<Rightarrow> (Inl e, w1)
              | Inr doc' \<Rightarrow> reload_config (w1\<lparr>config_file := Some doc'\<rparr>))))"









section \<open>Provider config\<close>

datatype Provider = OPENAI | AZURE_OPENAI | ANTHROPIC | OPENROUTER | LOCAL

text \<open>The \<^verbatim>\<open>value\<close> of each member of the enumeration.\<close>

fun provider_value :: "Provider \<Rightarrow> string" where
  "provider_value OPENAI = ''openai''"
| "provider_value AZURE_OPENAI = ''azure''"
| "provider_value ANTHROPIC = ''anthropic''"
| "provider_value OPENROUTER = ''openrouter''"
| "provider_value LOCAL = ''local''"

definition is_openrouter :: "Provider \<Rightarrow> bool" where
  "is_openrouter self = (self = OPENROUTER)"

definition is_openai_alike :: "Provider \<Rightarrow> bool" where
  "is_openai_alike self = (self \<in> set [OPENAI, AZURE_OPENAI, OPENROUTER, LOCAL])"

definition is_anthropic_alike :: "Provider \<Rightarrow> bool" where
  "is_anthropic_alike self = (self = ANTHROPIC)"

text \<open>
  The endpoint is an optional validated URL, kept as its text; a validated URL is never
  empty, so \<^verbatim>\<open>if self.endpoint\<close> is the test for \<^verbatim>\<open>None\<close>.
\<close>

record LLMAPIConfig =
  endpoint :: "string option"
  token :: string
  provider :: Provider
  model :: "string option"

definition envvar_api_key :: string where
  "envvar_api_key = ''API_KEY''"

definition envvar_provider :: string where
  "envvar_provider = ''API_PROVIDER''"

definition envvar_model :: string where
  "envvar_model = ''API_MODEL''"

definition envvar_endpoint :: "LLMAPIConfig \<Rightarrow> string" where
  "envvar_endpoint self =
     (if provider self = OPENAI \<or> provider self = AZURE_OPENAI then ''API_ENDPOINT'' else [])"

text \<open>
  \<^verbatim>\<open>save_to_config\<close>: two writes, then the early return with a warning when the
  provider has no endpoint variable, then the writes of the model and of the endpoint
  when they are truthy. An exception of a write ends the method.
\<close>

definition save_to_config :: "LLMAPIConfig \<Rightarrow> world \<Rightarrow> (exn + unit) \<times> world" where
  "save_to_config self w =
     (case set_config_value (''env.'' @ envvar_api_key) (token self) w of
        (Inl e, w1) \<Rightarrow> (Inl e, w1)
      | (Inr u1, w1) \<Rightarrow>
     (case set_config_value (''env.'' @ envvar_provider) (provider_value (provider self)) w1 of
        (Inl e, w2) \<Rightarrow> (Inl e, w2)
      | (Inr u2, w2) \<Rightarrow>
          if envvar_endpoint self = []
          then (Inr (),
                w2\<lparr>logged := logged w2 @ [NoCustomEndpoint (provider_value (provider self))]\<rparr>)
          else
     (case (case model self of
              None \<Rightarrow> (Inr (), w2)
            | Some m \<Rightarrow> if m \<noteq> [] then set_config_value (''env.'' @ envvar_model) m w2
                        else (Inr (), w2)) of
        (Inl e, w3) \<Rightarrow> (Inl e, w3)
      | (Inr u3, w3) \<Rightarrow>
          (case endpoint self of
             None \<Rightarrow> (Inr (), w3)
           | Some url \<Rightarrow> set_config_value (''env.'' @ envvar_endpoint self) url w3))))"

text \<open>
  The persisted document as the specification's data model wants it: the file is absent
  (it is then created with the default document), or it holds a \<^verbatim>\<open>prompt\<close> key and
  an \<^verbatim>\<open>env\<close> table.
\<close>

definition persisted_ok :: "world \<Rightarrow> bool" where
  "persisted_ok w =
     (case config_file w of
        None \<Rightarrow> True
      | Some doc \<Rightarrow>
          (case tk_get doc ''prompt'' of
             None \<Rightarrow> False
           | Some p \<Rightarrow> (case tk_get doc ''env'' of Some (TTable e) \<Rightarrow> True | _ \<Rightarrow> False)))"

text \<open>The \<^verbatim>\<open>env\<close> table that a load of the settings file gives.\<close>

definition persisted_env :: "world \<Rightarrow> body" where
  "persisted_env w =
     (case tk_get (fst (load_config_raw w)) ''env'' of
        Some (TTable e) \<Rightarrow> e
      | _ \<Rightarrow> [])"

section \<open>Files and paths\<close>

text \<open>
  What \<^verbatim>\<open>pathlib\<close>, \<^verbatim>\<open>open\<close> and \<^verbatim>\<open>glob\<close> work on: the files and directories of the
  machine, each under the list of the components of its absolute path and in the order a
  directory listing gives them, and the current directory of the process. The root
  directory is always there. Symbolic links, permissions and encodings are not modelled.
\<close>

datatype fnode = File string | Dir

record os =
  entries :: "(string list \<times> fnode) list"
  cwd :: "string list"

definition stat :: "os \<Rightarrow> string list \<Rightarrow> fnode option" where
  "stat s p = (if p = [] then Some Dir else map_of (entries s) p)"

text \<open>
  A \<^verbatim>\<open>pathlib\<close> path: whether it is absolute, and its parts. \<^verbatim>\<open>Path(s)\<close> drops
  empty components and \<^verbatim>\<open>.\<close>; \<^verbatim>\<open>p / name\<close> adds a part; \<^verbatim>\<open>p.name\<close> is the last
  part.
\<close>

datatype path = Path bool "string list"


fun joinpath :: "path \<Rightarrow> string \<Rightarrow> path" where
  "joinpath (Path a ps) n = Path a (ps @ [n])"


text \<open>
  Where the operating system finds a path: a relative path starts at the current
  directory, and \<^verbatim>\<open>..\<close> steps to the parent.
\<close>

fun climb :: "string list \<Rightarrow> string list \<Rightarrow> string list" where
  "climb d [] = d"
| "climb d (c # cs) = (if c = ''..'' then climb (butlast d) cs else climb (d @ [c]) cs)"

fun locate :: "os \<Rightarrow> path \<Rightarrow> string list" where
  "locate s (Path a ps) = climb (if a then [] else cwd s) ps"

definition path_exists :: "os \<Rightarrow> path \<Rightarrow> bool" where
  "path_exists s p = (stat s (locate s p) \<noteq> None)"



section \<open>Project prompt loader\<close>










text \<open>\<^verbatim>\<open>sep.join(xs)\<close>.\<close>

fun join :: "string \<Rightarrow> string list \<Rightarrow> string" where
  "join sep [] = []"
| "join sep [x] = x"
| "join sep (x # y # ys) = x @ sep @ join sep (y # ys)"






section \<open>Agent harness\<close>

text \<open>
  \<^verbatim>\<open>Files\<close>: a dictionary from relative path to content, as the list of its items.
\<close>

type_synonym Files = "(string \<times> string) list"

text \<open>The keyword arguments of the call of the chat engine.\<close>

record chat_call =
  chat_prompt_msgs :: "(string \<times> string) list"
  chat_initial_msgs :: "string list"
  chat_name :: string
  chat_model :: string
  chat_no_confirm :: bool
  chat_interactive :: bool
  chat_workspace :: string

text \<open>
  What \<^verbatim>\<open>GPTMe.act\<close> calls and \<^verbatim>\<open>agents.py\<close> does not define: the built-in
  \<^verbatim>\<open>hash\<close>, \<^verbatim>\<open>get_name\<close> of \<^verbatim>\<open>gptme.cli\<close>, the constructor and the two methods of
  \<^verbatim>\<open>FileStore\<close>, \<^verbatim>\<open>get_prompt\<close> (of which the harness uses the content) and the chat
  engine. Each is a parameter; apart from \<^verbatim>\<open>hash\<close> each may change the file system
  and may raise. What the harness prints and logs is not part of the state.
\<close>

record collaborators =
  py_hash :: "string \<Rightarrow> int"
  get_name :: "string \<Rightarrow> os \<Rightarrow> (exn + path) \<times> os"
  FileStore :: "path \<Rightarrow> os \<Rightarrow> (exn + unit) \<times> os"
  upload :: "path \<Rightarrow> Files \<Rightarrow> os \<Rightarrow> (exn + unit) \<times> os"
  get_prompt :: "os \<Rightarrow> (exn + string) \<times> os"
  gptme_chat :: "chat_call \<Rightarrow> os \<Rightarrow> (exn + unit) \<times> os"
  download :: "path \<Rightarrow> os \<Rightarrow> (exn + Files) \<times> os"

text \<open>\<^verbatim>\<open>str(n)\<close> for a natural number.\<close>

fun decimal :: "nat \<Rightarrow> string" where
  "decimal n =
     (if n < 10 then [''0123456789'' ! n]
      else decimal (n div 10) @ [''0123456789'' ! (n mod 10)])"

declare decimal.simps [simp del]

text \<open>
  \<^verbatim>\<open>_id = abs(hash(prompt)) % 1000000\<close> and
  \<^verbatim>\<open>name = f"gptme-evals-{self.model.replace('/', '--')}-{_id}"\<close>.
\<close>

definition run_name :: "(string \<Rightarrow> int) \<Rightarrow> string \<Rightarrow> string \<Rightarrow> string" where
  "run_name hash self_model prompt_text =
     ''gptme-evals-''
     @ concat (map (\<lambda>x. if x = CHR ''/'' then ''--'' else [x]) self_model)
     @ ''-'' @ decimal (nat (\<bar>hash prompt_text\<bar> mod 1000000))"

text \<open>\<^verbatim>\<open>if files: store.upload(files)\<close>: nothing is uploaded for \<^verbatim>\<open>None\<close> or \<^verbatim>\<open>{}\<close>.\<close>

definition seed :: "collaborators \<Rightarrow> path \<Rightarrow> Files option \<Rightarrow> os \<Rightarrow> (exn + unit) \<times> os" where
  "seed c workspace_dir files s =
     (case files of
        None \<Rightarrow> (Inr (), s)
      | Some fs \<Rightarrow> if fs = [] then (Inr (), s) else upload c workspace_dir fs s)"

text \<open>The call of the chat engine, with the suffix appended to the system prompt.\<close>

definition invocation :: "string \<Rightarrow> string \<Rightarrow> string \<Rightarrow> string \<Rightarrow> chat_call" where
  "invocation prompt_text prompt_sys name self_model =
     \<lparr>chat_prompt_msgs = [(''user'', prompt_text)],
      chat_initial_msgs =
        [prompt_sys @ [CHR 0x0A, CHR 0x0A]
           @ ''If you have trouble and dont seem to make progress, stop trying.''],
      chat_name = name,
      chat_model = self_model,
      chat_no_confirm = True,
      chat_interactive = False,
      chat_workspace = ''@log''\<rparr>"

text \<open>
  \<^verbatim>\<open>try: gptme_chat(...) except (SystemExit, KeyboardInterrupt): pass\<close>: these two
  exceptions end the statement normally, any other leaves it.
\<close>

definition contained :: "(exn + unit) \<times> os \<Rightarrow> (exn + unit) \<times> os" where
  "contained r =
     (case r of
        (Inl e, s) \<Rightarrow> if e = SystemExit \<or> e = KeyboardInterrupt then (Inr (), s) else (Inl e, s)
      | (Inr u, s) \<Rightarrow> (Inr (), s))"

text \<open>\<^verbatim>\<open>GPTMe.act\<close>; the first argument after the collaborators is \<^verbatim>\<open>self.model\<close>.\<close>

definition act ::
  "collaborators \<Rightarrow> string \<Rightarrow> Files option \<Rightarrow> string \<Rightarrow> os \<Rightarrow> (exn + Files) \<times> os" where
  "act c self_model files prompt_text s =
     (let name = run_name (py_hash c) self_model prompt_text in
      case get_name c name s of
        (Inl e, s1) \<Rightarrow> (Inl e, s1)
      | (Inr logdir, s1) \<Rightarrow>
     (let workspace_dir = joinpath logdir ''workspace'' in
      if path_exists s1 workspace_dir then (Inl FileExistsError, s1)
      else
     (case FileStore c workspace_dir s1 of
        (Inl e, s2) \<Rightarrow> (Inl e, s2)
      | (Inr store, s2) \<Rightarrow>
     (case seed c workspace_dir files s2 of
        (Inl e, s3) \<Rightarrow> (Inl e, s3)
      | (Inr u, s3) \<Rightarrow>
     (case get_prompt c s3 of
        (Inl e, s4) \<Rightarrow> (Inl e, s4)
      | (Inr prompt_sys, s4) \<Rightarrow>
     (case contained (gptme_chat c (invocation prompt_text prompt_sys name self_model) s4) of
        (Inl e, s5) \<Rightarrow> (Inl e, s5)
      | (Inr u, s5) \<Rightarrow> download c workspace_dir s5))))))"

text \<open>
  Modelled from the spec: the Workspace / File Store (\<^verbatim>\<open>gptme/eval/filestore.py\<close> is not
  among the sources). A store is bound to one directory. \<^verbatim>\<open>upload\<close> materializes every
  pair of a relative path and a content under that directory, creating intermediate
  directories as needed, with plain overwrite; \<^verbatim>\<open>download\<close> walks the directory
  recursively and returns every file found, under its path relative to the directory.
  These are the instances of the three collaborators used where a run is computed.
\<close>

text \<open>The prefixes of a path that are not empty, shortest first.\<close>

fun inits :: "string list \<Rightarrow> string list list" where
  "inits [] = []"
| "inits (x # xs) = [x] # map ((#) x) (inits xs)"

definition with_dirs :: "(string list \<times> fnode) list \<Rightarrow> string list \<Rightarrow> (string list \<times> fnode) list" where
  "with_dirs es p =
     es @ map (\<lambda>d. (d, Dir)) (filter (\<lambda>d. map_of es d = None) (butlast (inits p)))"

definition write_text :: "string list \<Rightarrow> string \<Rightarrow> os \<Rightarrow> os" where
  "write_text p t s =
     s\<lparr>entries := filter (\<lambda>e. fst e \<noteq> p) (with_dirs (entries s) p) @ [(p, File t)]\<rparr>"

definition FileStore_init :: "path \<Rightarrow> os \<Rightarrow> (exn + unit) \<times> os" where
  "FileStore_init working_dir s = (Inr (), s)"

definition FileStore_upload :: "path \<Rightarrow> Files \<Rightarrow> os \<Rightarrow> (exn + unit) \<times> os" where
  "FileStore_upload working_dir files s =
     (Inr (),
      fold (\<lambda>f s'. write_text
                     (locate s working_dir
                        @ filter (\<lambda>x. x \<noteq> []) (split_on CHR ''/'' (fst f)))
                     (snd f) s')
           files s)"

definition FileStore_download :: "path \<Rightarrow> os \<Rightarrow> (exn + Files) \<times> os" where
  "FileStore_download working_dir s =
     (let d = locate s working_dir in
      (Inr (concat (map (\<lambda>e. case snd e of
                                Dir \<Rightarrow> []
                              | File t \<Rightarrow>
                                  if length d < length (fst e) \<and> take (length d) (fst e) = d
                                  then [(join ''/'' (drop (length d) (fst e)), t)]
                                  else [])
                        (entries s))),
       s))"

section \<open>Lookups: precedence and truthiness\<close>

text \<open>
  C1, as stated, fails: with the process environment variable set to the empty string
  and a persisted value, the code returns the persisted value, while the stated
  precedence gives the (set) environment value.
\<close>

theorem get_env_presence_counterexample:
  "get_env [''FOO'' \<mapsto> ''''] \<lparr>prompt = TTable [], env = TTable [(Some ''FOO'', TStr ''stale'')]\<rparr>
      ''FOO'' None = Inr (Some (TStr ''stale''))
   \<and> getEnv_spec [''FOO'' \<mapsto> ''''] [(Some ''FOO'', TStr ''stale'')] ''FOO'' None
      = Some (TStr '''')"
  by (simp add: get_env_def getEnv_spec_def)

text \<open>
  C1, amended: the precedence of \<^verbatim>\<open>get_env\<close> is by truthiness. A non-empty process
  environment variable wins; otherwise a persisted value that is truthy; otherwise the
  supplied default, which is \<^verbatim>\<open>None\<close> when none is supplied.
\<close>

theorem get_env_precedence:
  assumes "env self = TTable b"
  shows "(live environ key \<longrightarrow>
            get_env environ self key dflt = Inr (map_option TStr (environ key)))
       \<and> (\<not> live environ key \<and> stored b key \<longrightarrow>
            get_env environ self key dflt = Inr (tk_get b key))
       \<and> (\<not> live environ key \<and> \<not> stored b key \<longrightarrow>
            get_env environ self key dflt = Inr (map_option TStr dflt))"
  using assms
  by (auto simp: get_env_def live_def stored_def split: option.splits)

theorem get_env_precedence_witness:
  "get_env [''FOO'' \<mapsto> ''live''] \<lparr>prompt = TTable [], env = TTable [(Some ''FOO'', TStr ''stale'')]\<rparr>
      ''FOO'' None = Inr (Some (TStr ''live''))
   \<and> get_env Map.empty \<lparr>prompt = TTable [], env = TTable [(Some ''FOO'', TStr ''stale'')]\<rparr>
      ''FOO'' (Some ''dflt'') = Inr (Some (TStr ''stale''))
   \<and> get_env Map.empty \<lparr>prompt = TTable [], env = TTable [(Some ''FOO'', TStr ''stale'')]\<rparr>
      ''BAR'' (Some ''dflt'') = Inr (Some (TStr ''dflt''))
   \<and> get_env Map.empty \<lparr>prompt = TTable [], env = TTable [(Some ''FOO'', TStr ''stale'')]\<rparr>
      ''BAR'' None = Inr None"
  using
    get_env_precedence [of "\<lparr>prompt = TTable [], env = TTable [(Some ''FOO'', TStr ''stale'')]\<rparr>"
      "[(Some ''FOO'', TStr ''stale'')]" "[''FOO'' \<mapsto> ''live'']" "''FOO''" None]
    get_env_precedence [of "\<lparr>prompt = TTable [], env = TTable [(Some ''FOO'', TStr ''stale'')]\<rparr>"
      "[(Some ''FOO'', TStr ''stale'')]" Map.empty "''FOO''" "Some ''dflt''"]
    get_env_precedence [of "\<lparr>prompt = TTable [], env = TTable [(Some ''FOO'', TStr ''stale'')]\<rparr>"
      "[(Some ''FOO'', TStr ''stale'')]" Map.empty "''BAR''" "Some ''dflt''"]
    get_env_precedence [of "\<lparr>prompt = TTable [], env = TTable [(Some ''FOO'', TStr ''stale'')]\<rparr>"
      "[(Some ''FOO'', TStr ''stale'')]" Map.empty "''BAR''" None]
  by (simp add: live_def stored_def)

text \<open>
  C8, as stated, fails: with the process environment variable set to the empty string
  and nothing persisted, the code raises although the key is set in the environment.
\<close>

theorem get_env_required_iff_counterexample:
  "get_env_required [''FOO'' \<mapsto> ''''] \<lparr>prompt = TTable [], env = TTable []\<rparr> ''FOO''
      = Inl KeyError
   \<and> getEnvRequired_spec [''FOO'' \<mapsto> ''''] [] ''FOO'' = Inr (TStr '''')"
  by (simp add: get_env_required_def getEnvRequired_spec_def)

text \<open>
  C8, amended: \<^verbatim>\<open>get_env_required\<close> returns the value found under the precedence of
  \<^verbatim>\<open>get_env\<close> (a non-empty process environment variable, then a truthy persisted
  value), and raises the missing-variable error (a \<^verbatim>\<open>KeyError\<close>) if and only if
  neither level holds a truthy value. No default is substituted.
\<close>

theorem get_env_required_precedence:
  assumes "env self = TTable b"
  shows "(live environ key \<longrightarrow>
            (\<exists>s. environ key = Some s \<and> get_env_required environ self key = Inr (TStr s)))
       \<and> (\<not> live environ key \<and> stored b key \<longrightarrow>
            (\<exists>v. tk_get b key = Some v \<and> get_env_required environ self key = Inr v))
       \<and> (get_env_required environ self key = Inl KeyError
            \<longleftrightarrow> \<not> live environ key \<and> \<not> stored b key)
       \<and> (\<forall>v. get_env_required environ self key = Inr v
            \<longrightarrow> get_env environ self key dflt = Inr (Some v))"
  using assms
  by (auto simp: get_env_required_def get_env_def live_def stored_def split: option.splits)

theorem get_env_required_precedence_witness:
  "get_env_required [''FOO'' \<mapsto> ''live'']
      \<lparr>prompt = TTable [], env = TTable [(Some ''FOO'', TStr ''stale'')]\<rparr> ''FOO''
      = Inr (TStr ''live'')
   \<and> get_env_required Map.empty
      \<lparr>prompt = TTable [], env = TTable [(Some ''FOO'', TStr ''stale'')]\<rparr> ''FOO''
      = Inr (TStr ''stale'')
   \<and> get_env_required Map.empty
      \<lparr>prompt = TTable [], env = TTable [(Some ''FOO'', TStr ''stale'')]\<rparr> ''BAR''
      = Inl KeyError"
  using
    get_env_required_precedence [of "\<lparr>prompt = TTable [], env = TTable [(Some ''FOO'', TStr ''stale'')]\<rparr>"
      "[(Some ''FOO'', TStr ''stale'')]" "[''FOO'' \<mapsto> ''live'']" "''FOO''" None]
    get_env_required_precedence [of "\<lparr>prompt = TTable [], env = TTable [(Some ''FOO'', TStr ''stale'')]\<rparr>"
      "[(Some ''FOO'', TStr ''stale'')]" Map.empty "''FOO''" None]
    get_env_required_precedence [of "\<lparr>prompt = TTable [], env = TTable [(Some ''FOO'', TStr ''stale'')]\<rparr>"
      "[(Some ''FOO'', TStr ''stale'')]" Map.empty "''BAR''" None]
  by (simp add: live_def stored_def)

text \<open>
  C9: in both lookups a value that is present but equal to the empty string is treated
  as unset. With the process environment variable set to the empty string the lookup
  falls through to the persisted mapping: a truthy persisted value is what
  \<^verbatim>\<open>get_env\<close> and \<^verbatim>\<open>get_env_required\<close> return, and without one \<^verbatim>\<open>get_env\<close> returns
  the default and \<^verbatim>\<open>get_env_required\<close> raises. With no live environment variable and
  the persisted value equal to the empty string, \<^verbatim>\<open>get_env\<close> falls through to the
  default and \<^verbatim>\<open>get_env_required\<close> raises the missing-variable error.
\<close>

theorem empty_string_is_unset:
  assumes "env self = TTable b"
  shows
    "(environ key = Some [] \<and> stored b key \<longrightarrow>
        (\<exists>v. tk_get b key = Some v
           \<and> get_env environ self key dflt = Inr (Some v)
           \<and> get_env_required environ self key = Inr v))
   \<and> (environ key = Some [] \<and> \<not> stored b key \<longrightarrow>
        get_env environ self key dflt = Inr (map_option TStr dflt)
      \<and> get_env_required environ self key = Inl KeyError)
   \<and> (\<not> live environ key \<and> tk_get b key = Some (TStr []) \<longrightarrow>
        get_env environ self key dflt = Inr (map_option TStr dflt)
      \<and> get_env_required environ self key = Inl KeyError)"
  using assms
  by (auto simp: get_env_def get_env_required_def live_def stored_def split: option.splits)

theorem empty_string_is_unset_witness:
  "get_env [''FOO'' \<mapsto> ''''] \<lparr>prompt = TTable [], env = TTable [(Some ''FOO'', TStr ''stale'')]\<rparr>
      ''FOO'' (Some ''dflt'') = Inr (Some (TStr ''stale''))
   \<and> get_env_required [''FOO'' \<mapsto> '''']
      \<lparr>prompt = TTable [], env = TTable [(Some ''FOO'', TStr ''stale'')]\<rparr> ''FOO''
    = Inr (TStr ''stale'')
   \<and> get_env [''FOO'' \<mapsto> ''''] \<lparr>prompt = TTable [], env = TTable []\<rparr>
      ''FOO'' (Some ''dflt'') = Inr (Some (TStr ''dflt''))
   \<and> get_env_required [''FOO'' \<mapsto> ''''] \<lparr>prompt = TTable [], env = TTable []\<rparr> ''FOO''
    = Inl KeyError
   \<and> get_env Map.empty \<lparr>prompt = TTable [], env = TTable [(Some ''FOO'', TStr '''')]\<rparr>
      ''FOO'' (Some ''dflt'') = Inr (Some (TStr ''dflt''))
   \<and> get_env_required Map.empty \<lparr>prompt = TTable [], env = TTable [(Some ''FOO'', TStr '''')]\<rparr>
      ''FOO'' = Inl KeyError"
  using
    empty_string_is_unset [of "\<lparr>prompt = TTable [], env = TTable [(Some ''FOO'', TStr ''stale'')]\<rparr>"
      "[(Some ''FOO'', TStr ''stale'')]" "[''FOO'' \<mapsto> '''']" "''FOO''" "Some ''dflt''"]
    empty_string_is_unset [of "\<lparr>prompt = TTable [], env = TTable []\<rparr>"
      "[]" "[''FOO'' \<mapsto> '''']" "''FOO''" "Some ''dflt''"]
    empty_string_is_unset [of "\<lparr>prompt = TTable [], env = TTable [(Some ''FOO'', TStr '''')]\<rparr>"
      "[(Some ''FOO'', TStr '''')]" Map.empty "''FOO''" "Some ''dflt''"]
  by (simp add: live_def stored_def)

section \<open>Settings store: containers and key paths\<close>

lemma tk_get_replace:
  "tk_get (tk_replace b k v) k' = (if k' = k \<and> tk_get b k \<noteq> None then Some v else tk_get b k')"
  by (induction b) (auto split: if_splits)

lemma tk_get_setitem:
  "tk_get (tk_setitem b k v) k' = (if k' = k then Some v else tk_get b k')"
proof -
  have "tk_get (b @ [(Some k, v)]) k' = (if tk_get b k' = None then (if k' = k then Some v else None) else tk_get b k')"
    by (induction b) (auto split: if_splits)
  then show ?thesis
    by (auto simp: tk_setitem_def tk_get_replace)
qed



lemma tk_keys_replace: "tk_keys (tk_replace b k v) = tk_keys b"
  by (induction b rule: tk_keys.induct) auto


lemma walk_detached: "walk doc Detached ks = Inr Detached"
  by (induction ks) (auto simp: step_def cursor_get_def)

lemma body_at_append:
  "body_at doc (p @ q) = (case body_at doc p of None \<Rightarrow> None | Some b \<Rightarrow> body_at b q)"
  by (induction p arbitrary: doc) (auto split: option.splits item.splits)

lemma walk_existing:
  "body_at doc (p @ ks) = Some b \<Longrightarrow> walk doc (InDoc p) ks = Inr (InDoc (p @ ks))"
proof (induction ks arbitrary: p)
  case Nil
  then show ?case by simp
next
  case (Cons k ks)
  from Cons.prems have *: "body_at doc ((p @ [k]) @ ks) = Some b" by simp
  then obtain b1 where b1: "body_at doc p = Some b1" 
    by (auto simp: body_at_append split: option.splits)
  with * obtain b2 where "tk_get b1 k = Some (TTable b2)"
    by (auto simp: body_at_append split: option.splits item.splits)
  with b1 have "step doc (InDoc p) k = Inr (InDoc (p @ [k]))"
    by (simp add: step_def cursor_get_def)
  with Cons.IH[OF *] show ?case by simp
qed

lemma split_on_nonempty: "split_on c s \<noteq> []"
  by (induction s) (auto split: list.splits)

lemma split_on_no_sep: "c \<notin> set s \<Longrightarrow> split_on c s = [s]"
  by (induction s) auto

lemma split_on_prefix:
  "c \<notin> set p \<Longrightarrow> split_on c (p @ c # s) = p # split_on c s"
  by (induction p) (auto split: list.splits)


lemma load_config_raw_file:
  "config_file (snd (load_config_raw w)) = Some (fst (load_config_raw w))"
  by (simp add: load_config_raw_def split: option.splits)

lemma load_config_file:
  "config_file w = Some doc \<Longrightarrow> config_file (snd (load_config w)) = Some doc"
  by (simp add: load_config_def load_config_raw_def Let_def split: option.splits)

lemma reload_config_file:
  "config_file w = Some doc \<Longrightarrow> config_file (snd (reload_config w)) = Some doc"
  by (auto simp: reload_config_def load_config_def load_config_raw_def Let_def
      split: option.splits prod.splits sum.splits)

lemma reload_config_cached:
  "config_file w = Some doc \<Longrightarrow> fst (reload_config w) = Inr () \<Longrightarrow>
     \<exists>p e. tk_get doc ''prompt'' = Some p \<and> tk_get doc ''env'' = Some e
        \<and> cached (snd (reload_config w)) = Some \<lparr>prompt = p, env = e\<rparr>"
  by (auto simp: reload_config_def load_config_def load_config_raw_def Let_def
      split: option.splits prod.splits sum.splits)

lemma reload_config_ok:
  "config_file w = Some doc \<Longrightarrow> tk_get doc ''prompt'' = Some p \<Longrightarrow> tk_get doc ''env'' = Some e \<Longrightarrow>
     \<exists>w'. reload_config w = (Inr (), w') \<and> config_file w' = Some doc
        \<and> cached w' = Some \<lparr>prompt = p, env = e\<rparr> \<and> set (logged w) \<subseteq> set (logged w')"
  by (auto simp: reload_config_def load_config_def load_config_raw_def Let_def
      split: option.splits prod.splits sum.splits)

lemma set_config_value_existing:
  assumes "body_at (fst (load_config_raw w)) (butlast (split_on CHR ''.'' key)) = Some b"
  shows "set_config_value key val w =
           reload_config ((snd (load_config_raw w))\<lparr>config_file :=
             Some (body_put (fst (load_config_raw w)) (butlast (split_on CHR ''.'' key))
                     (tk_setitem b (last (split_on CHR ''.'' key)) (TStr val)))\<rparr>)"
proof -
  obtain doc w1 where raw: "load_config_raw w = (doc, w1)" by (cases "load_config_raw w")
  with assms have b: "body_at doc (butlast (split_on CHR ''.'' key)) = Some b" by simp
  then have "walk doc (InDoc []) (butlast (split_on CHR ''.'' key))
          = Inr (InDoc (butlast (split_on CHR ''.'' key)))"
    using walk_existing [of doc "[]"] by simp
  with raw b show ?thesis
    by (simp add: set_config_value_def cursor_setitem_def Let_def)
qed

lemma set_config_value_env:
  assumes ok: "persisted_ok w" and nodot: "CHR ''.'' \<notin> set K"
  shows "\<exists>w'. set_config_value (''env.'' @ K) v w = (Inr (), w')
           \<and> persisted_ok w'
           \<and> persisted_env w' = tk_setitem (persisted_env w) K (TStr v)
           \<and> cached w' = Some \<lparr>prompt = the (tk_get (fst (load_config_raw w)) ''prompt''),
                                 env = TTable (tk_setitem (persisted_env w) K (TStr v))\<rparr>
           \<and> set (logged w) \<subseteq> set (logged w')"
proof -
  obtain doc w1 where raw: "load_config_raw w = (doc, w1)" by (cases "load_config_raw w")
  from ok raw obtain p e where p: "tk_get doc ''prompt'' = Some p"
    and e: "tk_get doc ''env'' = Some (TTable e)"
    by (auto simp: persisted_ok_def load_config_raw_def default_config_def
        split: option.splits item.splits)
  have sp: "split_on CHR ''.'' (''env.'' @ K) = [''env'', K]"
    using split_on_prefix [of "CHR ''.''" "''env''" K] split_on_no_sep [OF nodot] by simp
  have pe: "persisted_env w = e" using raw e by (simp add: persisted_env_def)
  let ?doc' = "tk_replace doc ''env'' (TTable (tk_setitem e K (TStr v)))"
  have step1: "set_config_value (''env.'' @ K) v w = reload_config (w1\<lparr>config_file := Some ?doc'\<rparr>)"
    using set_config_value_existing [of w "''env.'' @ K" e v] raw e sp by simp
  have g1: "tk_get ?doc' ''prompt'' = Some p" using p by (simp add: tk_get_replace)
  have g2: "tk_get ?doc' ''env'' = Some (TTable (tk_setitem e K (TStr v)))"
    using e by (simp add: tk_get_replace)
  from reload_config_ok [of "w1\<lparr>config_file := Some ?doc'\<rparr>" ?doc', OF _ g1 g2]
  obtain w' where w': "reload_config (w1\<lparr>config_file := Some ?doc'\<rparr>) = (Inr (), w')"
    "config_file w' = Some ?doc'"
    "cached w' = Some \<lparr>prompt = p, env = TTable (tk_setitem e K (TStr v))\<rparr>"
    "set (logged w1) \<subseteq> set (logged w')"
    by auto
  have l: "set (logged w) \<subseteq> set (logged w1)"
    using raw by (auto simp: load_config_raw_def split: option.splits)
  have "persisted_ok w'" using w'(2) g1 g2 by (simp add: persisted_ok_def)
  moreover have "persisted_env w' = tk_setitem e K (TStr v)"
    using w'(2) g2 by (simp add: persisted_env_def load_config_raw_def)
  ultimately show ?thesis using step1 w' pe p raw l by auto
qed

section \<open>Settings store: edits\<close>

lemma walk_missing:
  "tk_get doc k = None \<Longrightarrow> walk doc (InDoc []) (k # ks) = Inr Detached"
  by (simp add: step_def cursor_get_def walk_detached)

lemma reload_config_coherent:
  assumes "reload_config (w\<lparr>config_file := Some doc\<rparr>) = (Inr (), w')"
  shows "\<exists>p e. config_file w' = Some doc \<and> tk_get doc ''prompt'' = Some p
           \<and> tk_get doc ''env'' = Some e \<and> cached w' = Some \<lparr>prompt = p, env = e\<rparr>"
  using assms
    reload_config_file [of "w\<lparr>config_file := Some doc\<rparr>" doc]
    reload_config_cached [of "w\<lparr>config_file := Some doc\<rparr>" doc]
  by auto

text \<open>
  What the rest of the program sees after \<^verbatim>\<open>set_config_value("env.K", v)\<close> on a
  well-formed settings file: \<^verbatim>\<open>get_config().get_env(K)\<close> is \<^verbatim>\<open>v\<close> when the
  variable is not set in the process environment and \<^verbatim>\<open>v\<close> is not empty.
\<close>

lemma set_config_value_then_get_env:
  assumes "persisted_ok w" and "CHR ''.'' \<notin> set K" and "environ K = None" and "v \<noteq> []"
  shows "\<exists>w' c. set_config_value (''env.'' @ K) v w = (Inr (), w')
           \<and> get_config w' = (Inr c, w')
           \<and> get_env environ c K dflt = Inr (Some (TStr v))"
proof -
  from set_config_value_env [OF assms(1,2), of v]
  obtain w' where w': "set_config_value (''env.'' @ K) v w = (Inr (), w')"
    "cached w' = Some \<lparr>prompt = the (tk_get (fst (load_config_raw w)) ''prompt''),
                        env = TTable (tk_setitem (persisted_env w) K (TStr v))\<rparr>"
    by auto
  then show ?thesis
    using assms(3,4) by (simp add: get_config_def get_env_def tk_get_setitem)
qed

text \<open>
  C2, at a missing intermediate node: the settings file holds \<^verbatim>\<open>prompt\<close> and
  \<^verbatim>\<open>env\<close> only, and \<^verbatim>\<open>set_config_value("a.b", "x")\<close> returns normally with the
  file exactly as it was. The empty mapping that stands in for the missing node
  \<^verbatim>\<open>a\<close> is not part of the document, so the leaf written to it is lost.
\<close>

theorem set_config_value_drops_write:
  "set_config_value ''a.b'' ''x''
     \<lparr>config_file = Some [(Some ''prompt'', TTable []), (Some ''env'', TTable [])],
      cached = None, logged = []\<rparr>
   = (Inr (),
      \<lparr>config_file = Some [(Some ''prompt'', TTable []), (Some ''env'', TTable [])],
       cached = Some \<lparr>prompt = TTable [], env = TTable []\<rparr>, logged = []\<rparr>)"
  by (simp add: set_config_value_def load_config_raw_def step_def cursor_get_def
      cursor_setitem_def reload_config_def load_config_def tk_delitem_def)






section \<open>Provider config: persistence\<close>

lemma persisted_env_logged:
  "persisted_env (w\<lparr>logged := l\<rparr>) = persisted_env w"
  by (simp add: persisted_env_def load_config_raw_def split: option.splits)

text \<open>
  C6: on a well-formed settings file \<^verbatim>\<open>save_to_config\<close> returns normally with the
  token persisted under \<^verbatim>\<open>env.API_KEY\<close> and the provider id under
  \<^verbatim>\<open>env.API_PROVIDER\<close>. For a provider other than \<^verbatim>\<open>openai\<close> and
  \<^verbatim>\<open>azure\<close> the endpoint-variable name is empty, the warning is logged, and
  the persisted \<^verbatim>\<open>env\<close> table is the old one with exactly those two writes: whatever
  the model and endpoint fields hold, \<^verbatim>\<open>API_MODEL\<close> and \<^verbatim>\<open>API_ENDPOINT\<close> are
  as they were before.
\<close>

theorem save_to_config_persists:
  assumes ok: "persisted_ok w"
  shows "\<exists>w'. save_to_config self w = (Inr (), w')
     \<and> tk_get (persisted_env w') ''API_KEY'' = Some (TStr (token self))
     \<and> tk_get (persisted_env w') ''API_PROVIDER'' = Some (TStr (provider_value (provider self)))
     \<and> (provider self \<noteq> OPENAI \<and> provider self \<noteq> AZURE_OPENAI \<longrightarrow>
           envvar_endpoint self = []
         \<and> NoCustomEndpoint (provider_value (provider self)) \<in> set (logged w')
         \<and> persisted_env w' =
             tk_setitem (tk_setitem (persisted_env w) ''API_KEY'' (TStr (token self)))
               ''API_PROVIDER'' (TStr (provider_value (provider self)))
         \<and> tk_get (persisted_env w') ''API_MODEL'' = tk_get (persisted_env w) ''API_MODEL''
         \<and> tk_get (persisted_env w') ''API_ENDPOINT'' = tk_get (persisted_env w) ''API_ENDPOINT'')"
proof -
  from set_config_value_env [OF ok, of "''API_KEY''" "token self"]
  obtain w1 where w1: "set_config_value ''env.API_KEY'' (token self) w = (Inr (), w1)"
    "persisted_ok w1"
    "persisted_env w1 = tk_setitem (persisted_env w) ''API_KEY'' (TStr (token self))"
    by auto
  from set_config_value_env [OF w1(2), of "''API_PROVIDER''" "provider_value (provider self)"]
  obtain w2 where w2:
    "set_config_value ''env.API_PROVIDER'' (provider_value (provider self)) w1 = (Inr (), w2)"
    "persisted_ok w2"
    "persisted_env w2 =
       tk_setitem (persisted_env w1) ''API_PROVIDER'' (TStr (provider_value (provider self)))"
    by auto
  have k2: "tk_get (persisted_env w2) ''API_KEY'' = Some (TStr (token self))"
    "tk_get (persisted_env w2) ''API_PROVIDER'' = Some (TStr (provider_value (provider self)))"
    by (simp_all add: w1(3) w2(3) tk_get_setitem)
  show ?thesis
  proof (cases "envvar_endpoint self = []")
    case True
    then have "save_to_config self w =
        (Inr (), w2\<lparr>logged := logged w2 @ [NoCustomEndpoint (provider_value (provider self))]\<rparr>)"
      using w1(1) w2(1) by (simp add: save_to_config_def envvar_api_key_def envvar_provider_def)
    then show ?thesis
      using k2 True w1(3) w2(3) by (simp add: tk_get_setitem persisted_env_logged)
  next
    case False
    then have prov: "provider self = OPENAI \<or> provider self = AZURE_OPENAI"
      and ep: "envvar_endpoint self = ''API_ENDPOINT''"
      by (auto simp: envvar_endpoint_def split: if_splits)
    obtain w3 where w3:
      "(case model self of None \<Rightarrow> (Inr (), w2)
        | Some m \<Rightarrow> if m \<noteq> [] then set_config_value (''env.'' @ envvar_model) m w2
                    else (Inr (), w2))
       = (Inr (), w3)" "persisted_ok w3"
      "tk_get (persisted_env w3) ''API_KEY'' = Some (TStr (token self))"
      "tk_get (persisted_env w3) ''API_PROVIDER'' = Some (TStr (provider_value (provider self)))"
    proof (cases "model self")
      case None
      then show ?thesis using that [of w2] w2(2) k2 by simp
    next
      case (Some m)
      show ?thesis
      proof (cases "m = []")
        case True
        then show ?thesis using that [of w2] w2(2) k2 Some by simp
      next
        case False
        from set_config_value_env [OF w2(2), of "''API_MODEL''" m]
        obtain w3 where "set_config_value ''env.API_MODEL'' m w2 = (Inr (), w3)"
          "persisted_ok w3"
          "persisted_env w3 = tk_setitem (persisted_env w2) ''API_MODEL'' (TStr m)"
          by auto
        then show ?thesis
          using that [of w3] k2 Some False by (simp add: tk_get_setitem envvar_model_def)
      qed
    qed
    obtain w4 where w4:
      "(case endpoint self of None \<Rightarrow> (Inr (), w3)
        | Some url \<Rightarrow> set_config_value (''env.'' @ envvar_endpoint self) url w3)
       = (Inr (), w4)"
      "tk_get (persisted_env w4) ''API_KEY'' = Some (TStr (token self))"
      "tk_get (persisted_env w4) ''API_PROVIDER'' = Some (TStr (provider_value (provider self)))"
    proof (cases "endpoint self")
      case None
      then show ?thesis using that [of w3] w3 by simp
    next
      case (Some url)
      from set_config_value_env [OF w3(2), of "''API_ENDPOINT''" url]
      obtain w4 where "set_config_value ''env.API_ENDPOINT'' url w3 = (Inr (), w4)"
        "persisted_env w4 = tk_setitem (persisted_env w3) ''API_ENDPOINT'' (TStr url)"
        by auto
      then show ?thesis using that [of w4] w3 Some ep by (simp add: tk_get_setitem)
    qed
    have "save_to_config self w = (Inr (), w4)"
      using w1(1) w2(1) w3(1) w4(1) ep
      by (simp add: save_to_config_def envvar_api_key_def envvar_provider_def)
    then show ?thesis using w4 prov by auto
  qed
qed

theorem save_to_config_persists_witness:
  "persisted_ok \<lparr>config_file = None, cached = None, logged = []\<rparr>
   \<and> (\<exists>w'. save_to_config
              \<lparr>endpoint = Some ''http://localhost:1234'', token = ''t'',
               provider = ANTHROPIC, model = Some ''m''\<rparr>
              \<lparr>config_file = None, cached = None, logged = []\<rparr> = (Inr (), w')
          \<and> tk_get (persisted_env w') ''API_KEY'' = Some (TStr ''t'')
          \<and> tk_get (persisted_env w') ''API_PROVIDER'' = Some (TStr ''anthropic'')
          \<and> NoCustomEndpoint ''anthropic'' \<in> set (logged w')
          \<and> tk_get (persisted_env w') ''API_MODEL'' = None
          \<and> tk_get (persisted_env w') ''API_ENDPOINT'' = None)"
proof -
  have ok: "persisted_ok \<lparr>config_file = None, cached = None, logged = []\<rparr>"
    by (simp add: persisted_ok_def)
  have e0: "persisted_env \<lparr>config_file = None, cached = None, logged = []\<rparr> = []"
    by (simp add: persisted_env_def load_config_raw_def default_config_def)
  show ?thesis
    using ok save_to_config_persists [OF ok, of
        "\<lparr>endpoint = Some ''http://localhost:1234'', token = ''t'',
          provider = ANTHROPIC, model = Some ''m''\<rparr>"]
    by (auto simp: e0)
qed

section \<open>Project prompt loader: candidates and rendering\<close>








section \<open>Project prompt loader: the current directory\<close>






section \<open>Agent harness: conflict and containment\<close>

lemma seed_collaborators:
  "seed (c\<lparr>download := d\<rparr>) workspace_dir files s = seed c workspace_dir files s"
  by (simp add: seed_def split: option.splits)

text \<open>
  C5: when the workspace directory derived from the model and the prompt exists once
  \<^verbatim>\<open>get_name\<close> has resolved the log directory, \<^verbatim>\<open>act\<close> raises \<^verbatim>\<open>FileExistsError\<close>
  (the workspace conflict) and the state is the one \<^verbatim>\<open>get_name\<close> left: the harness
  has done nothing to the file system. The outcome is the same whatever the store, the
  upload, the system prompt, the chat engine and the download are, so none of them has
  run.
\<close>

theorem act_workspace_conflict:
  assumes "get_name c (run_name (py_hash c) self_model prompt_text) s = (Inr logdir, s1)"
    and "path_exists s1 (joinpath logdir ''workspace'')"
  shows "act c self_model files prompt_text s = (Inl FileExistsError, s1)
       \<and> (\<forall>f u g ch d.
            act (c\<lparr>FileStore := f, upload := u, get_prompt := g, gptme_chat := ch,
                    download := d\<rparr>)
              self_model files prompt_text s = (Inl FileExistsError, s1))"
  using assms by (simp add: act_def Let_def)

theorem act_workspace_conflict_witness:
  "act \<lparr>py_hash = \<lambda>p. int (length p),
        get_name = \<lambda>n s. (Inr (Path True [''logs'', n]), s),
        FileStore = FileStore_init, upload = FileStore_upload,
        get_prompt = \<lambda>s. (Inr ''sys'', s),
        gptme_chat = \<lambda>a s. (Inr (), write_text [''never''] ''run'' s),
        download = FileStore_download\<rparr>
      ''m/x'' (Some [(''in.txt'', ''data'')]) ''hi''
      \<lparr>entries = [([''logs''], Dir), ([''logs'', ''gptme-evals-m--x-2''], Dir),
                  ([''logs'', ''gptme-evals-m--x-2'', ''workspace''], Dir)],
       cwd = []\<rparr>
   = (Inl FileExistsError,
      \<lparr>entries = [([''logs''], Dir), ([''logs'', ''gptme-evals-m--x-2''], Dir),
                  ([''logs'', ''gptme-evals-m--x-2'', ''workspace''], Dir)],
       cwd = []\<rparr>)"
proof -
  let ?c = "\<lparr>py_hash = \<lambda>p. int (length p),
        get_name = \<lambda>n s. (Inr (Path True [''logs'', n]), s),
        FileStore = FileStore_init, upload = FileStore_upload,
        get_prompt = \<lambda>s. (Inr ''sys'', s),
        gptme_chat = \<lambda>a s. (Inr (), write_text [''never''] ''run'' s),
        download = FileStore_download\<rparr>"
  let ?s = "\<lparr>entries = [([''logs''], Dir), ([''logs'', ''gptme-evals-m--x-2''], Dir),
                  ([''logs'', ''gptme-evals-m--x-2'', ''workspace''], Dir)],
       cwd = []\<rparr>"
  have n: "run_name (\<lambda>p. int (length p)) ''m/x'' ''hi'' = ''gptme-evals-m--x-2''"
    by (simp add: run_name_def decimal.simps)
  have g: "get_name ?c (run_name (py_hash ?c) ''m/x'' ''hi'') ?s
             = (Inr (Path True [''logs'', ''gptme-evals-m--x-2'']), ?s)"
    by (simp add: n)
  have e: "path_exists ?s (joinpath (Path True [''logs'', ''gptme-evals-m--x-2'']) ''workspace'')"
    by (simp add: path_exists_def stat_def)
  from act_workspace_conflict [OF g e, THEN conjunct1]
  show ?thesis .
qed

text \<open>
  C4: let the run get as far as the call of the chat engine. If the engine raises
  \<^verbatim>\<open>SystemExit\<close> or \<^verbatim>\<open>KeyboardInterrupt\<close>, or returns, \<^verbatim>\<open>act\<close> returns what
  \<^verbatim>\<open>store.download()\<close> gives on the state the engine left. If the engine raises anything
  else, \<^verbatim>\<open>act\<close> raises that exception; no download takes place and the state is the
  one the engine left.
\<close>

theorem act_contains_exit:
  assumes "get_name c (run_name (py_hash c) self_model prompt_text) s = (Inr logdir, s1)"
    and "\<not> path_exists s1 (joinpath logdir ''workspace'')"
    and "FileStore c (joinpath logdir ''workspace'') s1 = (Inr (), s2)"
    and "seed c (joinpath logdir ''workspace'') files s2 = (Inr (), s3)"
    and "get_prompt c s3 = (Inr prompt_sys, s4)"
    and "gptme_chat c
           (invocation prompt_text prompt_sys (run_name (py_hash c) self_model prompt_text) self_model) s4
         = (r, s5)"
  shows "(r = Inl SystemExit \<or> r = Inl KeyboardInterrupt \<or> r = Inr () \<longrightarrow>
            act c self_model files prompt_text s
              = download c (joinpath logdir ''workspace'') s5)
       \<and> (\<forall>e. r = Inl e \<and> e \<noteq> SystemExit \<and> e \<noteq> KeyboardInterrupt \<longrightarrow>
            act c self_model files prompt_text s = (Inl e, s5)
            \<and> (\<forall>d. act (c\<lparr>download := d\<rparr>) self_model files prompt_text s = (Inl e, s5)))"
  using assms
  by (auto simp: act_def Let_def contained_def seed_collaborators)

text \<open>
  C4 on an empty disk, with the file store of the specification: the input file is
  uploaded, the engine writes \<^verbatim>\<open>out.txt\<close> into the workspace and exits, and \<^verbatim>\<open>act\<close>
  returns both files. With an engine that fails with another error, \<^verbatim>\<open>act\<close> raises
  it.
\<close>

theorem act_contains_exit_witness:
  "fst (act \<lparr>py_hash = \<lambda>p. int (length p),
        get_name = \<lambda>n s. (Inr (Path True [''logs'', n]), s),
        FileStore = FileStore_init, upload = FileStore_upload,
        get_prompt = \<lambda>s. (Inr ''sys'', s),
        gptme_chat = \<lambda>a s. (Inl SystemExit,
                       write_text [''logs'', chat_name a, ''workspace'', ''out.txt''] ''done'' s),
        download = FileStore_download\<rparr>
      ''m/x'' (Some [(''in.txt'', ''data'')]) ''hi'' \<lparr>entries = [], cwd = []\<rparr>)
   = Inr [(''in.txt'', ''data''), (''out.txt'', ''done'')]
   \<and> fst (act \<lparr>py_hash = \<lambda>p. int (length p),
        get_name = \<lambda>n s. (Inr (Path True [''logs'', n]), s),
        FileStore = FileStore_init, upload = FileStore_upload,
        get_prompt = \<lambda>s. (Inr ''sys'', s),
        gptme_chat = \<lambda>a s. (Inl (OtherError ''boom''), s),
        download = FileStore_download\<rparr>
      ''m/x'' (Some [(''in.txt'', ''data'')]) ''hi'' \<lparr>entries = [], cwd = []\<rparr>)
   = Inl (OtherError ''boom'')"
proof -
  let ?exit = "\<lambda>a s. (Inl SystemExit,
                 write_text [''logs'', chat_name a, ''workspace'', ''out.txt''] ''done'' s)"
  let ?boom = "\<lambda>(a :: chat_call) (s :: os). (Inl (OtherError ''boom'') :: exn + unit, s)"
  let ?c = "\<lambda>ch. \<lparr>py_hash = \<lambda>p. int (length p),
        get_name = \<lambda>n s. (Inr (Path True [''logs'', n]), s),
        FileStore = FileStore_init, upload = FileStore_upload,
        get_prompt = \<lambda>s. (Inr ''sys'', s),
        gptme_chat = ch,
        download = FileStore_download\<rparr>"
  let ?s = "\<lparr>entries = [], cwd = []\<rparr>"
  let ?wd = "Path True [''logs'', ''gptme-evals-m--x-2'', ''workspace'']"
  let ?s3 = "\<lparr>entries = [([''logs''], Dir), ([''logs'', ''gptme-evals-m--x-2''], Dir),
                ([''logs'', ''gptme-evals-m--x-2'', ''workspace''], Dir),
                ([''logs'', ''gptme-evals-m--x-2'', ''workspace'', ''in.txt''], File ''data'')],
             cwd = []\<rparr>"
  let ?s5 = "\<lparr>entries = [([''logs''], Dir), ([''logs'', ''gptme-evals-m--x-2''], Dir),
                ([''logs'', ''gptme-evals-m--x-2'', ''workspace''], Dir),
                ([''logs'', ''gptme-evals-m--x-2'', ''workspace'', ''in.txt''], File ''data''),
                ([''logs'', ''gptme-evals-m--x-2'', ''workspace'', ''out.txt''], File ''done'')],
             cwd = []\<rparr>"
  have n: "run_name (\<lambda>p. int (length p)) ''m/x'' ''hi'' = ''gptme-evals-m--x-2''"
    by (simp add: run_name_def decimal.simps)
  have g: "get_name (?c ch) (run_name (py_hash (?c ch)) ''m/x'' ''hi'') ?s
             = (Inr (Path True [''logs'', ''gptme-evals-m--x-2'']), ?s)" for ch
    by (simp add: n)
  have e: "\<not> path_exists ?s (joinpath (Path True [''logs'', ''gptme-evals-m--x-2'']) ''workspace'')"
    by (simp add: path_exists_def stat_def)
  have f: "FileStore (?c ch) (joinpath (Path True [''logs'', ''gptme-evals-m--x-2'']) ''workspace'') ?s
             = (Inr (), ?s)" for ch
    by (simp add: FileStore_init_def)
  have sp: "filter (\<lambda>x. x \<noteq> []) (split_on CHR ''/'' ''in.txt'') = [''in.txt'']"
    by simp
  have u: "seed (?c ch) (joinpath (Path True [''logs'', ''gptme-evals-m--x-2'']) ''workspace'')
             (Some [(''in.txt'', ''data'')]) ?s = (Inr (), ?s3)" for ch
    by (simp add: seed_def FileStore_upload_def sp write_text_def with_dirs_def)
  have p: "get_prompt (?c ch) ?s3 = (Inr ''sys'', ?s3)" for ch
    by simp
  have x: "gptme_chat (?c ?exit)
             (invocation ''hi'' ''sys'' (run_name (py_hash (?c ?exit)) ''m/x'' ''hi'') ''m/x'') ?s3
           = (Inl SystemExit, ?s5)"
    by (simp add: n invocation_def write_text_def with_dirs_def)
  have b: "gptme_chat (?c ?boom)
             (invocation ''hi'' ''sys'' (run_name (py_hash (?c ?boom)) ''m/x'' ''hi'') ''m/x'') ?s3
           = (Inl (OtherError ''boom''), ?s3)"
    by simp
  have d: "FileStore_download ?wd ?s5
           = (Inr [(''in.txt'', ''data''), (''out.txt'', ''done'')], ?s5)"
    by (simp add: FileStore_download_def Let_def)
  have r1: "act (?c ?exit) ''m/x'' (Some [(''in.txt'', ''data'')]) ''hi'' ?s
            = download (?c ?exit) (joinpath (Path True [''logs'', ''gptme-evals-m--x-2'']) ''workspace'') ?s5"
    using act_contains_exit [where c = "?c ?exit", OF g e f u p x, THEN conjunct1] by simp
  have r2: "act (?c ?boom) ''m/x'' (Some [(''in.txt'', ''data'')]) ''hi'' ?s
            = (Inl (OtherError ''boom''), ?s3)"
    using act_contains_exit [where c = "?c ?boom", OF g e f u p b, THEN conjunct2] by simp
  show ?thesis
    using r1 r2 d by simp
qed

end
